theory Spec2Isabelle
  imports Complex_Main "HOL-Library.Word" "HOL-Library.Sublist"
begin

unbundle bit_operations_syntax

section \<open>Values of the program\<close>

text \<open>
  The program is a single Python module, \<^verbatim>\<open>function_app.py\<close>. Its values are byte
  strings (request bodies, decoded or downloaded documents), Python strings, and the
  values that \<^verbatim>\<open>req.get_json()\<close> produces. A \<open>string\<close> of the model is a Python
  \<^verbatim>\<open>str\<close>, one \<open>char\<close> per character, so \<open>length\<close> is Python's \<^verbatim>\<open>len\<close>; the
  characters are those with a code below 256. A JSON number without a fraction is an
  \<^verbatim>\<open>int\<close>, any other a \<^verbatim>\<open>float\<close>, of which the module reads only whether it is zero.
\<close>

type_synonym byte = "8 word"
type_synonym bytes = "byte list"

datatype json =
    JNull
  | JBool bool
  | JInt int
  | JFloat real
  | JStr string
  | JArr "json list"
  | JObj "(string \<times> json) list"

text \<open>
  A function of the module returns the pair \<^verbatim>\<open>(pages, error)\<close>, each component
  possibly \<^verbatim>\<open>None\<close>.
\<close>

type_synonym outcome = "string list option \<times> string option"

subsection \<open>Decimal formatting of an index\<close>

text \<open>\<^verbatim>\<open>f"{page_num+1}"\<close> and \<^verbatim>\<open>f"{response.status_code}"\<close> print a natural number in decimal.\<close>

definition digit_char :: "nat \<Rightarrow> char" where
  "digit_char d = ''0123456789'' ! d"

function str_nat :: "nat \<Rightarrow> string" where
  "str_nat n = (if n < 10 then [digit_char n] else str_nat (n div 10) @ [digit_char (n mod 10)])"
  by pat_completeness auto
termination
  by (relation "measure (\<lambda>n. n)") auto

declare str_nat.simps [simp del]

section \<open>The libraries the module calls\<close>

text \<open>
  PyMuPDF, \<^verbatim>\<open>base64\<close> and \<^verbatim>\<open>requests\<close> are not code of the module; the model takes
  what they answer as a parameter. An exception \<^verbatim>\<open>e\<close> raised by a library is the
  string \<^verbatim>\<open>str(e)\<close>, the only thing the module reads of it.

  \<^item> A document that \<^verbatim>\<open>fitz.open\<close> returned has \<^verbatim>\<open>len(pdf_document)\<close> pages, and
    \<^verbatim>\<open>pdf_document.load_page(n).get_text("text")\<close> gives the text of page \<open>n\<close>
    (\<open>Inr\<close>) or raises (\<open>Inl\<close>).
  \<^item> \<^verbatim>\<open>fitz.open(stream=..., filetype="pdf")\<close> returns a document or raises.
  \<^item> \<^verbatim>\<open>base64.b64decode\<close> of a \<^verbatim>\<open>str\<close> returns bytes or raises (\<open>None\<close>).
  \<^item> \<^verbatim>\<open>requests.get(url, timeout=30)\<close> returns a response, of which the module reads
    \<^verbatim>\<open>status_code\<close> and \<^verbatim>\<open>content\<close>, or raises.
\<close>

record pdf_document =
  page_count :: nat
  page_text :: "nat \<Rightarrow> string + string"

record libs =
  fitz_open :: "bytes \<Rightarrow> string + pdf_document"
  b64decode :: "string \<Rightarrow> bytes option"
  requests_get :: "string \<Rightarrow> string + (nat \<times> bytes)"

section \<open>process_pdf\<close>

text \<open>
  The body of the page loop (lines 35 to 45): the text of the page, cut to 100000
  characters with a marker when it is longer, or the placeholder when loading the page
  or reading its text raised.
\<close>

definition extract_page :: "pdf_document \<Rightarrow> nat \<Rightarrow> string" where
  "extract_page pdf_document page_num =
     (case page_text pdf_document page_num of
        Inr text \<Rightarrow>
          (if length text > 100000 then take 100000 text @ ''... [content truncated]''
           else text)
      | Inl page_error \<Rightarrow>
          ''[Error extracting page '' @ str_nat (page_num + 1) @ '': '' @ page_error @ '']'')"

text \<open>\<^verbatim>\<open>for page_num in range(max_pages)\<close>, appending to \<^verbatim>\<open>pages\<close>.\<close>

fun extract_loop :: "pdf_document \<Rightarrow> nat list \<Rightarrow> string list \<Rightarrow> string list" where
  "extract_loop pdf_document [] pages = pages"
| "extract_loop pdf_document (page_num # rest) pages =
     extract_loop pdf_document rest (pages @ [extract_page pdf_document page_num])"

text \<open>
  Lines 13 to 51. Nothing outside the two inner \<^verbatim>\<open>try\<close> blocks raises on a byte string,
  so the outer handler of line 48 has no branch here.
\<close>

definition process_pdf :: "libs \<Rightarrow> bytes \<Rightarrow> outcome" where
  "process_pdf libs pdf_bytes =
     (if length pdf_bytes < 100 then (None, Some ''PDF data too small to be valid'')
      else
        (case fitz_open libs pdf_bytes of
           Inl e \<Rightarrow> (None, Some (''Cannot open PDF document: '' @ e))
         | Inr pdf_document \<Rightarrow>
             (let total_page_count = page_count pdf_document;
                  max_pages = min total_page_count 300
              in (Some (extract_loop pdf_document [0..<max_pages] []), None))))"

section \<open>Python operations on request values\<close>

text \<open>
  The handler applies \<^verbatim>\<open>len\<close>, \<^verbatim>\<open>in\<close>, indexing and \<^verbatim>\<open>.get\<close> to whatever the request
  holds, and the interpreter raises where the type does not fit. An exception is a value;
  \<open>str_exc\<close> is \<^verbatim>\<open>str(e)\<close> in the wording of CPython 3.11.
\<close>

datatype py_exception =
    TypeError string
  | AttributeError string
  | KeyError string
  | IndexError string

fun str_exc :: "py_exception \<Rightarrow> string" where
  "str_exc (TypeError m) = m"
| "str_exc (AttributeError m) = m"
| "str_exc (KeyError m) = m"
| "str_exc (IndexError m) = m"

fun type_name :: "json \<Rightarrow> string" where
  "type_name JNull = ''NoneType''"
| "type_name (JBool b) = ''bool''"
| "type_name (JInt i) = ''int''"
| "type_name (JFloat r) = ''float''"
| "type_name (JStr s) = ''str''"
| "type_name (JArr xs) = ''list''"
| "type_name (JObj kvs) = ''dict''"

text \<open>A name between single quotes, as the interpreter's messages print it.\<close>

definition quoted :: "string \<Rightarrow> string" where
  "quoted s = [CHR 0x27] @ s @ [CHR 0x27]"

text \<open>The truth value of an object, as \<^verbatim>\<open>if content\<close> and \<^verbatim>\<open>not content\<close> read it.\<close>

fun truthy :: "json \<Rightarrow> bool" where
  "truthy JNull = False"
| "truthy (JBool b) = b"
| "truthy (JInt i) = (i \<noteq> 0)"
| "truthy (JFloat r) = (r \<noteq> 0)"
| "truthy (JStr s) = (s \<noteq> [])"
| "truthy (JArr xs) = (xs \<noteq> [])"
| "truthy (JObj kvs) = (kvs \<noteq> [])"

fun py_len :: "json \<Rightarrow> py_exception + nat" where
  "py_len (JStr s) = Inr (length s)"
| "py_len (JArr xs) = Inr (length xs)"
| "py_len (JObj kvs) = Inr (length (remdups (map fst kvs)))"
| "py_len v = Inl (TypeError (''object of type '' @ quoted (type_name v) @ '' has no len()''))"

text \<open>\<^verbatim>\<open>sub in s\<close> on strings.\<close>

fun str_contains :: "string \<Rightarrow> string \<Rightarrow> bool" where
  "str_contains [] sub = (sub = [])"
| "str_contains (c # cs) sub = (prefix sub (c # cs) \<or> str_contains cs sub)"

text \<open>\<^verbatim>\<open>key in obj\<close> for a string key.\<close>

fun py_in :: "string \<Rightarrow> json \<Rightarrow> py_exception + bool" where
  "py_in k (JObj kvs) = Inr (map_of kvs k \<noteq> None)"
| "py_in k (JArr xs) = Inr (JStr k \<in> set xs)"
| "py_in k (JStr s) = Inr (str_contains s k)"
| "py_in k v = Inl (TypeError (''argument of type '' @ quoted (type_name v) @ '' is not iterable''))"

text \<open>\<^verbatim>\<open>obj[key]\<close> for a string key.\<close>

fun py_getitem :: "json \<Rightarrow> string \<Rightarrow> py_exception + json" where
  "py_getitem (JObj kvs) k =
     (case map_of kvs k of
        Some v \<Rightarrow> Inr v
      | None \<Rightarrow> Inl (KeyError (quoted k)))"
| "py_getitem (JArr xs) k = Inl (TypeError ''list indices must be integers or slices, not str'')"
| "py_getitem (JStr s) k =
     Inl (TypeError (''string indices must be integers, not '' @ quoted ''str''))"
| "py_getitem v k = Inl (TypeError (quoted (type_name v) @ '' object is not subscriptable''))"

text \<open>\<^verbatim>\<open>obj[0]\<close>.\<close>

fun py_getitem0 :: "json \<Rightarrow> py_exception + json" where
  "py_getitem0 (JArr xs) =
     (case xs of [] \<Rightarrow> Inl (IndexError ''list index out of range'') | x # _ \<Rightarrow> Inr x)"
| "py_getitem0 (JStr s) =
     (case s of [] \<Rightarrow> Inl (IndexError ''string index out of range'') | c # _ \<Rightarrow> Inr (JStr [c]))"
| "py_getitem0 (JObj kvs) = Inl (KeyError ''0'')"
| "py_getitem0 v = Inl (TypeError (quoted (type_name v) @ '' object is not subscriptable''))"

text \<open>\<^verbatim>\<open>obj.get(key, default)\<close>.\<close>

fun py_get :: "json \<Rightarrow> string \<Rightarrow> json \<Rightarrow> py_exception + json" where
  "py_get (JObj kvs) k dflt = Inr (case map_of kvs k of Some v \<Rightarrow> v | None \<Rightarrow> dflt)"
| "py_get v k dflt =
     Inl (AttributeError (quoted (type_name v) @ '' object has no attribute '' @ quoted ''get''))"

text \<open>Sequencing of steps that may raise: the first exception ends the block.\<close>

definition bind_exc :: "py_exception + 'a \<Rightarrow> ('a \<Rightarrow> py_exception + 'b) \<Rightarrow> py_exception + 'b" where
  "bind_exc m f = (case m of Inl e \<Rightarrow> Inl e | Inr x \<Rightarrow> f x)"

section \<open>process_skillset_content\<close>

subsection \<open>The raw-text branch\<close>

text \<open>\<^verbatim>\<open>content.split("\n")\<close>: the pieces between newlines, one more than there are newlines.\<close>

fun split_nl :: "string \<Rightarrow> string list" where
  "split_nl [] = [[]]"
| "split_nl (c # cs) =
     (if c = CHR 0x0A then [] # split_nl cs
      else (case split_nl cs of
              [] \<Rightarrow> [[c]]
            | line # lines \<Rightarrow> (c # line) # lines))"

text \<open>
  The loop of lines 89 to 93, on the lines still to read, the pages made so far and the
  page being filled; it returns the last two.
\<close>

fun paginate_loop :: "string list \<Rightarrow> string list \<Rightarrow> string \<Rightarrow> string list \<times> string" where
  "paginate_loop [] pages current_page = (pages, current_page)"
| "paginate_loop (line # lines) pages current_page =
     (let current_page = current_page @ line @ [CHR 0x0A]
      in if length current_page > 5000
         then paginate_loop lines (pages @ [current_page]) []
         else paginate_loop lines pages current_page)"

text \<open>Lines 86 to 95.\<close>

definition paginate :: "string \<Rightarrow> string list" where
  "paginate content =
     (case paginate_loop (split_nl content) [] [] of
        (pages, current_page) \<Rightarrow>
          if current_page \<noteq> [] then pages @ [current_page] else pages)"

text \<open>Lines 85 to 99: what the handler of the bare \<^verbatim>\<open>except\<close> returns.\<close>

definition raw_text :: "json \<Rightarrow> outcome" where
  "raw_text content =
     (case content of
        JStr s \<Rightarrow>
          (if truthy content then (Some (paginate s), None)
           else (None, Some ''Invalid or empty content''))
      | _ \<Rightarrow> (None, Some ''Invalid or empty content''))"

subsection \<open>The URL branch and the decoder\<close>

text \<open>Lines 62 to 73.\<close>

definition url_fetch :: "libs \<Rightarrow> string \<Rightarrow> outcome" where
  "url_fetch libs content =
     (case requests_get libs content of
        Inl e \<Rightarrow> (None, Some (''Error downloading from URL: '' @ e))
      | Inr (status_code, pdf_bytes) \<Rightarrow>
          (if status_code = 200 then process_pdf libs pdf_bytes
           else (None, Some (''Failed to download from URL: status code '' @ str_nat status_code))))"

text \<open>
  \<^verbatim>\<open>base64.b64decode(content)\<close>: on a \<^verbatim>\<open>str\<close> the library decides; any other value of a
  request is neither bytes-like nor a string, and the call raises \<^verbatim>\<open>TypeError\<close>.
\<close>

definition b64decode_value :: "libs \<Rightarrow> json \<Rightarrow> bytes option" where
  "b64decode_value libs content =
     (case content of JStr s \<Rightarrow> b64decode libs s | _ \<Rightarrow> None)"

text \<open>\<^verbatim>\<open>isinstance(content, str) and (content.startswith("http") or content.startswith("https"))\<close>\<close>

definition is_url :: "json \<Rightarrow> bool" where
  "is_url content =
     (case content of
        JStr s \<Rightarrow> prefix ''http'' s \<or> prefix ''https'' s
      | _ \<Rightarrow> False)"

text \<open>
  Lines 53 to 104. The log line 57 evaluates \<^verbatim>\<open>len(content) if content else 0\<close> first;
  when that raises, control goes to the handler of line 101.
\<close>

definition process_skillset_content :: "libs \<Rightarrow> json \<Rightarrow> json \<Rightarrow> outcome" where
  "process_skillset_content libs content record_id =
     (case (if truthy content then py_len content else Inr 0) of
        Inl e \<Rightarrow> (None, Some (''Error processing content: '' @ str_exc e))
      | Inr n \<Rightarrow>
          (if is_url content then
             (case content of JStr s \<Rightarrow> url_fetch libs s | _ \<Rightarrow> raw_text content)
           else
             (case b64decode_value libs content of
                Some pdf_bytes \<Rightarrow> process_pdf libs pdf_bytes
              | None \<Rightarrow> raw_text content)))"

section \<open>The HTTP handler\<close>

text \<open>
  Of a request the handler reads \<^verbatim>\<open>req.headers.get('Content-Type', '')\<close>,
  \<^verbatim>\<open>req.get_json()\<close> (\<open>None\<close> when it raises \<^verbatim>\<open>ValueError\<close>) and \<^verbatim>\<open>req.get_body()\<close>.
  A response body is text, or \<^verbatim>\<open>json.dumps\<close> of a value, kept as the value.
  \<^verbatim>\<open>func.HttpResponse\<close> defaults to status 200 and to the MIME type text/plain.
\<close>

record http_request =
  content_type :: string
  get_json :: "json option"
  get_body :: bytes

datatype payload = JsonText json | PlainText string

record http_response =
  body :: payload
  mimetype :: string
  status_code :: nat

definition HttpResponse :: "payload \<Rightarrow> string option \<Rightarrow> nat option \<Rightarrow> http_response" where
  "HttpResponse b mt sc =
     \<lparr>body = b,
      mimetype = (case mt of None \<Rightarrow> ''text/plain'' | Some m \<Rightarrow> m),
      status_code = (case sc of None \<Rightarrow> 200 | Some c \<Rightarrow> c)\<rparr>"

text \<open>The dictionary \<^verbatim>\<open>{"values": [{"recordId": record_id, "errors": [error_message]}]}\<close>.\<close>

definition error_envelope :: "json \<Rightarrow> string \<Rightarrow> json" where
  "error_envelope record_id error_message =
     JObj [(''values'',
            JArr [JObj [(''recordId'', record_id), (''errors'', JArr [JStr error_message])]])]"

text \<open>Lines 221 to 235.\<close>

definition create_error_response :: "json \<Rightarrow> string \<Rightarrow> http_response" where
  "create_error_response record_id error_message =
     HttpResponse (JsonText (error_envelope record_id error_message)) (Some ''application/json'') None"

definition pages_value :: "string list option \<Rightarrow> json" where
  "pages_value pages = (case pages of None \<Rightarrow> JNull | Some ps \<Rightarrow> JArr (map JStr ps))"

text \<open>
  \<^verbatim>\<open>if error\<close> on the second component of an outcome, and the message that
  \<^verbatim>\<open>f"{error}"\<close> prints.
\<close>

definition error_set :: "string option \<Rightarrow> bool" where
  "error_set error = (case error of None \<Rightarrow> False | Some e \<Rightarrow> e \<noteq> [])"

definition error_text :: "string option \<Rightarrow> string" where
  "error_text error = (case error of None \<Rightarrow> ''None'' | Some e \<Rightarrow> e)"

text \<open>Lines 132 to 180, on the parsed request.\<close>

definition skillset_request :: "libs \<Rightarrow> json \<Rightarrow> py_exception + http_response" where
  "skillset_request libs request_json =
     bind_exc (py_in ''values'' request_json) (\<lambda>has_values.
     bind_exc (if has_values
               then bind_exc (py_getitem request_json ''values'') (\<lambda>v.
                    bind_exc (py_len v) (\<lambda>n. Inr (n > 0)))
               else Inr False) (\<lambda>nonempty.
     if nonempty then
       bind_exc (py_getitem request_json ''values'') (\<lambda>values.
       bind_exc (py_getitem0 values) (\<lambda>first.
       bind_exc (py_get first ''recordId'' (JStr ''0'')) (\<lambda>record_id.
       bind_exc (py_getitem0 values) (\<lambda>first.
       bind_exc (py_in ''data'' first) (\<lambda>has_data.
       if \<not> has_data then Inr (create_error_response record_id ''No data field in request'')
       else
         bind_exc (py_getitem0 values) (\<lambda>first.
         bind_exc (py_getitem first ''data'') (\<lambda>data.
         bind_exc (py_get data ''content'' (JStr [])) (\<lambda>content.
         if \<not> truthy content
         then Inr (create_error_response record_id ''No content provided in request'')
         else
           (case process_skillset_content libs content record_id of
              (pages, error) \<Rightarrow>
                if error_set error
                then Inr (create_error_response record_id (error_text error))
                else Inr (HttpResponse
                            (JsonText (JObj [(''values'',
                               JArr [JObj [(''recordId'', record_id),
                                           (''data'', JObj [(''pages'', pages_value pages)])]])]))
                            (Some ''application/json'') None))))))))))
     else
       Inr (HttpResponse
              (JsonText (error_envelope (JStr ''0'')
                 (''Invalid request format: missing '' @ quoted ''values'' @ '' array'')))
              (Some ''application/json'') (Some 400))))"

text \<open>Lines 183 to 202, on the request body.\<close>

definition direct_request :: "libs \<Rightarrow> bytes \<Rightarrow> py_exception + http_response" where
  "direct_request libs pdf_bytes =
     (if length pdf_bytes = 0
      then Inr (HttpResponse (PlainText ''No PDF data received in request body.'') None (Some 400))
      else
        (case process_pdf libs pdf_bytes of
           (pages, error) \<Rightarrow>
             if error_set error
             then Inr (HttpResponse (PlainText (''Error: '' @ error_text error)) None (Some 500))
             else
               (case pages of
                  None \<Rightarrow> Inl (TypeError (quoted ''NoneType'' @ '' object is not iterable''))
                | Some ps \<Rightarrow>
                    Inr (HttpResponse
                           (JsonText (JObj [(''pages'',
                              JArr (map (\<lambda>(i, content).
                                           JObj [(''page_number'', JInt (int i + 1)),
                                                 (''content'', JStr content)])
                                        (enumerate 0 ps)))]))
                           (Some ''application/json'') None))))"

text \<open>Lines 107 to 219, with the handler of line 203 around both modes.\<close>

definition split_pdf :: "libs \<Rightarrow> http_request \<Rightarrow> http_response" where
  "split_pdf libs req =
     (case (if str_contains (content_type req) ''application/json''
            then (case get_json req of
                    None \<Rightarrow>
                      Inr (HttpResponse
                             (JsonText (error_envelope (JStr ''0'') ''Invalid JSON in request''))
                             (Some ''application/json'') (Some 400))
                  | Some request_json \<Rightarrow> skillset_request libs request_json)
            else direct_request libs (get_body req)) of
        Inr response \<Rightarrow> response
      | Inl e \<Rightarrow>
          HttpResponse
            (JsonText (error_envelope (JStr ''0'') (''General function error: '' @ str_exc e)))
            (Some ''application/json'') (Some 500))"

section \<open>A concrete library, for running the module\<close>

text \<open>
  The decoder is the one of CPython's \<^verbatim>\<open>binascii.a2b_base64\<close> as \<^verbatim>\<open>base64.b64decode\<close>
  calls it (no validation): characters outside the alphabet are skipped, padding ends
  the input once a group is complete, and an incomplete last group is an error.
  A \<^verbatim>\<open>str\<close> with a character outside ASCII is refused before decoding.
\<close>

definition table_a2b_base64 :: "char \<Rightarrow> byte option" where
  "table_a2b_base64 c =
     (let n = (of_char c :: nat) in
      if 65 \<le> n \<and> n \<le> 90 then Some (of_nat (n - 65))
      else if 97 \<le> n \<and> n \<le> 122 then Some (of_nat (n - 71))
      else if 48 \<le> n \<and> n \<le> 57 then Some (of_nat (n + 4))
      else if n = 43 then Some 62
      else if n = 47 then Some 63
      else None)"

fun a2b_base64 :: "string \<Rightarrow> nat \<Rightarrow> byte \<Rightarrow> nat \<Rightarrow> bytes \<Rightarrow> bytes option" where
  "a2b_base64 [] quad_pos leftchar pads bin_data =
     (if quad_pos \<noteq> 0 then None else Some bin_data)"
| "a2b_base64 (c # cs) quad_pos leftchar pads bin_data =
     (if c = CHR ''='' then
        (if quad_pos \<ge> 2 \<and> quad_pos + (pads + 1) \<ge> 4 then Some bin_data
         else a2b_base64 cs quad_pos leftchar (if quad_pos \<ge> 2 then pads + 1 else pads) bin_data)
      else
        (case table_a2b_base64 c of
           None \<Rightarrow> a2b_base64 cs quad_pos leftchar pads bin_data
         | Some this_ch \<Rightarrow>
             (if quad_pos = 0 then a2b_base64 cs 1 this_ch 0 bin_data
              else if quad_pos = 1 then
                a2b_base64 cs 2 (this_ch AND 0x0f) 0
                  (bin_data @ [push_bit 2 leftchar OR drop_bit 4 this_ch])
              else if quad_pos = 2 then
                a2b_base64 cs 3 (this_ch AND 0x03) 0
                  (bin_data @ [push_bit 4 leftchar OR drop_bit 2 this_ch])
              else
                a2b_base64 cs 0 0 0 (bin_data @ [push_bit 6 leftchar OR this_ch]))))"

definition python_b64decode :: "string \<Rightarrow> bytes option" where
  "python_b64decode s =
     (if list_all (\<lambda>c. (of_char c :: nat) < 128) s then a2b_base64 s 0 0 0 [] else None)"

text \<open>
  A document of three pages whose second page cannot be read, a byte string of 100 bytes
  that opens as that document, and one address that serves it.
\<close>

definition sample_document :: pdf_document where
  "sample_document =
     \<lparr>page_count = 3,
      page_text = (\<lambda>n. if n = 0 then Inr ''Title page''
                        else if n = 1 then Inl ''bad xref''
                        else Inr ''Last page'')\<rparr>"

definition sample_pdf_bytes :: bytes where
  "sample_pdf_bytes = [0x25, 0x50, 0x44, 0x46] @ replicate 96 0x20"

definition sample_libs :: libs where
  "sample_libs =
     \<lparr>fitz_open = (\<lambda>b. if b = sample_pdf_bytes then Inr sample_document
                         else Inl ''Failed to open stream''),
      b64decode = python_b64decode,
      requests_get = (\<lambda>url. if url = ''http://host/doc.pdf'' then Inr (200, sample_pdf_bytes)
                             else Inr (404, []))\<rparr>"

text \<open>
  Two more documents: one page of 100001 characters, and 301 short pages.
\<close>

definition long_document :: pdf_document where
  "long_document = \<lparr>page_count = 1, page_text = (\<lambda>n. Inr (replicate 100001 CHR ''x''))\<rparr>"

definition big_document :: pdf_document where
  "big_document = \<lparr>page_count = 301, page_text = (\<lambda>n. Inr ''p'')\<rparr>"

section \<open>Notions used in the statements\<close>

text \<open>The page made of a run of lines, each followed by a newline.\<close>

definition page_of :: "string list \<Rightarrow> string" where
  "page_of ls = concat (map (\<lambda>l. l @ [CHR 0x0A]) ls)"

text \<open>
  The whitespace characters of ASCII, as \<^verbatim>\<open>str.isspace\<close> has them: tab to carriage
  return, the four separators, and the space.
\<close>

definition is_ascii_space :: "char \<Rightarrow> bool" where
  "is_ascii_space c =
     (let n = (of_char c :: nat) in (9 \<le> n \<and> n \<le> 13) \<or> (28 \<le> n \<and> n \<le> 32))"

text \<open>\<^verbatim>\<open>values[0].get('recordId', '0')\<close> on a record that is a dictionary.\<close>

definition record_id_of :: "(string \<times> json) list \<Rightarrow> json" where
  "record_id_of r = (case map_of r ''recordId'' of Some i \<Rightarrow> i | None \<Rightarrow> JStr ''0'')"

text \<open>A request with content type \<^verbatim>\<open>application/json\<close> and the given parse of its body.\<close>

definition json_request :: "json option \<Rightarrow> http_request" where
  "json_request j = \<lparr>content_type = ''application/json'', get_json = j, get_body = []\<rparr>"

text \<open>A body of the shape \<^verbatim>\<open>{"values": [item]}\<close>, with one item.\<close>

fun single_values :: "payload \<Rightarrow> bool" where
  "single_values (JsonText (JObj [(k, JArr [item])])) = (k = ''values'')"
| "single_values _ = False"

definition one_value :: "py_exception + http_response \<Rightarrow> bool" where
  "one_value m = (case m of Inl e \<Rightarrow> True | Inr resp \<Rightarrow> single_values (body resp))"

section \<open>Properties of process_pdf\<close>

lemma extract_loop_map:
  "extract_loop d ns acc = acc @ map (extract_page d) ns"
  by (induction ns arbitrary: acc) simp_all

lemma process_pdf_opened:
  assumes "\<not> length pdf_bytes < 100" and "fitz_open libs pdf_bytes = Inr d"
  shows "process_pdf libs pdf_bytes =
           (Some (map (extract_page d) [0..<min (page_count d) 300]), None)"
  using assms by (simp add: process_pdf_def extract_loop_map Let_def)

lemma sample_bytes_len: "length sample_pdf_bytes = 100"
  by (simp add: sample_pdf_bytes_def)

lemma sample_open: "fitz_open sample_libs sample_pdf_bytes = Inr sample_document"
  by (simp add: sample_libs_def)

lemma sample_pages:
  "page_count sample_document = 3"
  "page_text sample_document 0 = Inr ''Title page''"
  "page_text sample_document 1 = Inl ''bad xref''"
  "page_text sample_document 2 = Inr ''Last page''"
  by (simp_all add: sample_document_def)

lemma str_nat_2: "str_nat 2 = ''2''"
  by (simp add: str_nat.simps digit_char_def)

text \<open>
  Claim C9. A byte string shorter than 100 bytes gives no pages and the error
  \<^verbatim>\<open>PDF data too small to be valid\<close>; the result is the same whatever the libraries
  would answer, so the document is not opened.
\<close>

theorem process_pdf_too_small:
  assumes "length pdf_bytes < 100"
  shows "process_pdf libs pdf_bytes = (None, Some ''PDF data too small to be valid'')
         \<and> process_pdf libs pdf_bytes = process_pdf libs' pdf_bytes"
  using assms by (simp add: process_pdf_def)

theorem process_pdf_too_small_witness:
  "length ([0x25, 0x50, 0x44, 0x46] :: bytes) < 100
   \<and> process_pdf sample_libs [0x25, 0x50, 0x44, 0x46]
       = (None, Some ''PDF data too small to be valid'')"
  using process_pdf_too_small [of "[0x25, 0x50, 0x44, 0x46]" sample_libs sample_libs] by simp

text \<open>
  Claim C3. When the document opens and has \<open>N\<close> pages, the result is \<open>min N 300\<close> pages
  and no error, position \<open>i\<close> holding the entry of page \<open>i\<close>; there are never more
  than 300.
\<close>

theorem process_pdf_page_count:
  assumes "\<not> length pdf_bytes < 100" and "fitz_open libs pdf_bytes = Inr d"
  shows "\<exists>pages. process_pdf libs pdf_bytes = (Some pages, None)
           \<and> length pages = min (page_count d) 300
           \<and> length pages \<le> 300
           \<and> (\<forall>i < length pages. pages ! i = extract_page d i)"
  using assms by (simp add: process_pdf_opened)

theorem process_pdf_page_count_witness:
  "\<not> length sample_pdf_bytes < 100
   \<and> fitz_open sample_libs sample_pdf_bytes = Inr sample_document
   \<and> (\<exists>pages. process_pdf sample_libs sample_pdf_bytes = (Some pages, None)
         \<and> length pages = 3 \<and> pages ! 0 = ''Title page'' \<and> pages ! 2 = ''Last page'')
   \<and> fitz_open (sample_libs\<lparr>fitz_open := \<lambda>b. Inr big_document\<rparr>) sample_pdf_bytes
       = Inr big_document
   \<and> (\<exists>pages. process_pdf (sample_libs\<lparr>fitz_open := \<lambda>b. Inr big_document\<rparr>) sample_pdf_bytes
                 = (Some pages, None)
         \<and> length pages = 300)"
  using process_pdf_page_count [of sample_pdf_bytes sample_libs sample_document]
    process_pdf_page_count [of sample_pdf_bytes "sample_libs\<lparr>fitz_open := \<lambda>b. Inr big_document\<rparr>"
      big_document]
  by (auto simp: sample_bytes_len sample_open sample_pages extract_page_def big_document_def)

text \<open>
  Claim C5. A page among those processed whose text has more than 100000 characters is
  returned as its first 100000 characters followed by \<^verbatim>\<open>... [content truncated]\<close>; a page
  of at most 100000 characters is returned as it is.
\<close>

theorem process_pdf_page_limit:
  assumes "\<not> length pdf_bytes < 100" and "fitz_open libs pdf_bytes = Inr d"
    and "i < min (page_count d) 300" and "page_text d i = Inr t"
  shows "\<exists>pages. process_pdf libs pdf_bytes = (Some pages, None)
           \<and> i < length pages
           \<and> (100000 < length t \<longrightarrow> pages ! i = take 100000 t @ ''... [content truncated]'')
           \<and> (length t \<le> 100000 \<longrightarrow> pages ! i = t)"
  using assms by (simp add: process_pdf_opened extract_page_def)

theorem process_pdf_page_limit_witness:
  "\<not> length sample_pdf_bytes < 100
   \<and> fitz_open (sample_libs\<lparr>fitz_open := \<lambda>b. Inr long_document\<rparr>) sample_pdf_bytes
       = Inr long_document
   \<and> 0 < min (page_count long_document) 300
   \<and> page_text long_document 0 = Inr (replicate 100001 CHR ''x'')
   \<and> (\<exists>pages. process_pdf (sample_libs\<lparr>fitz_open := \<lambda>b. Inr long_document\<rparr>) sample_pdf_bytes
                 = (Some pages, None)
         \<and> pages ! 0 = replicate 100000 CHR ''x'' @ ''... [content truncated]'')"
  using process_pdf_page_limit [of sample_pdf_bytes
      "sample_libs\<lparr>fitz_open := \<lambda>b. Inr long_document\<rparr>" long_document 0
      "replicate 100001 CHR ''x''"]
  by (auto simp: sample_bytes_len long_document_def)

text \<open>
  Claim C1. When the document opens and reading page \<open>k\<close> raises, the result still has
  \<open>min N 300\<close> pages and no error; position \<open>k\<close> holds
  \<^verbatim>\<open>[Error extracting page <k+1>: <reason>]\<close>, and every other position holds the text
  of its own page, as line 42 appends it (whole when it has at most 100000 characters).
\<close>

theorem process_pdf_page_fault:
  assumes "\<not> length pdf_bytes < 100" and "fitz_open libs pdf_bytes = Inr d"
    and "k < min (page_count d) 300" and "page_text d k = Inl reason"
  shows "\<exists>pages. process_pdf libs pdf_bytes = (Some pages, None)
           \<and> length pages = min (page_count d) 300
           \<and> pages ! k = ''[Error extracting page '' @ str_nat (k + 1) @ '': '' @ reason @ '']''
           \<and> (\<forall>j < length pages. j \<noteq> k \<longrightarrow>
                 (\<forall>t. page_text d j = Inr t \<longrightarrow>
                    pages ! j = (if 100000 < length t
                                 then take 100000 t @ ''... [content truncated]'' else t)))"
  using assms by (simp add: process_pdf_opened extract_page_def)

theorem process_pdf_page_fault_witness:
  "\<not> length sample_pdf_bytes < 100
   \<and> fitz_open sample_libs sample_pdf_bytes = Inr sample_document
   \<and> 1 < min (page_count sample_document) 300
   \<and> page_text sample_document 1 = Inl ''bad xref''
   \<and> (\<exists>pages. process_pdf sample_libs sample_pdf_bytes = (Some pages, None)
         \<and> length pages = 3
         \<and> pages ! 0 = ''Title page''
         \<and> pages ! 1 = ''[Error extracting page 2: bad xref]''
         \<and> pages ! 2 = ''Last page'')"
proof -
  have h1: "\<not> length sample_pdf_bytes < 100" by (simp add: sample_bytes_len)
  have h3: "1 < min (page_count sample_document) 300" by (simp add: sample_pages)
  obtain pages where p: "process_pdf sample_libs sample_pdf_bytes = (Some pages, None)"
      "length pages = min (page_count sample_document) 300"
      "pages ! 1 = ''[Error extracting page '' @ str_nat (1 + 1) @ '': '' @ ''bad xref'' @ '']''"
      "\<forall>j < length pages. j \<noteq> 1 \<longrightarrow>
         (\<forall>t. page_text sample_document j = Inr t \<longrightarrow>
            pages ! j = (if 100000 < length t
                         then take 100000 t @ ''... [content truncated]'' else t))"
    using process_pdf_page_fault [OF h1 sample_open h3 sample_pages(3)] by blast
  have len: "length pages = 3" using p(2) by (simp add: sample_pages)
  have p0: "pages ! 0 = ''Title page''" using p(4) len sample_pages(2) by simp
  have p2: "pages ! 2 = ''Last page''" using p(4) len sample_pages(4) by simp
  have p1: "pages ! 1 = ''[Error extracting page 2: bad xref]''"
  proof -
    have "pages ! 1 = ''[Error extracting page '' @ ''2'' @ '': '' @ ''bad xref'' @ '']''"
      using p(3) by (simp only: one_add_one str_nat_2)
    then show ?thesis by simp
  qed
  show ?thesis using h1 sample_open h3 sample_pages(3) p(1) len p0 p1 p2 by blast
qed

section \<open>Properties of the raw-text branch\<close>

lemma split_nl_nonempty: "split_nl s \<noteq> []"
  by (induction s) (auto split: list.splits)

lemma page_of_split_nl: "page_of (split_nl s) = s @ [CHR 0x0A]"
proof (induction s)
  case Nil
  show ?case by (simp add: page_of_def)
next
  case (Cons c cs)
  obtain l ls where sp: "split_nl cs = l # ls"
    using split_nl_nonempty [of cs] by (cases "split_nl cs") auto
  show ?case using Cons sp by (simp add: page_of_def)
qed

lemma page_of_append: "page_of (xs @ ys) = page_of xs @ page_of ys"
  by (simp add: page_of_def)

lemma page_of_empty_iff: "page_of g = [] \<longleftrightarrow> g = []"
  by (cases g) (simp_all add: page_of_def)

lemma concat_map_page_of: "concat (map page_of gs) = page_of (concat gs)"
  by (induction gs) (simp_all add: page_of_def)

lemma paginate_loop_groups:
  "paginate_loop lines pages (page_of g0) = (pages', cur') \<Longrightarrow>
   \<exists>gs g. g0 @ lines = concat gs @ g \<and> [] \<notin> set gs
          \<and> pages' = pages @ map page_of gs \<and> cur' = page_of g"
proof (induction lines arbitrary: pages g0)
  case Nil
  then have "g0 @ [] = concat [] @ g0 \<and> [] \<notin> set ([] :: string list list)
             \<and> pages' = pages @ map page_of [] \<and> cur' = page_of g0"
    by simp
  then show ?case by blast
next
  case (Cons line lines)
  have step: "page_of g0 @ line @ [CHR 0x0A] = page_of (g0 @ [line])"
    by (simp add: page_of_def)
  show ?case
  proof (cases "length (page_of (g0 @ [line])) > 5000")
    case True
    then have "paginate_loop lines (pages @ [page_of (g0 @ [line])]) (page_of []) = (pages', cur')"
      using Cons.prems step by (simp add: Let_def page_of_def)
    from Cons.IH [OF this] obtain gs g where
      h: "[] @ lines = concat gs @ g" "[] \<notin> set gs"
         "pages' = (pages @ [page_of (g0 @ [line])]) @ map page_of gs" "cur' = page_of g"
      by blast
    have "g0 @ line # lines = concat ((g0 @ [line]) # gs) @ g
          \<and> [] \<notin> set ((g0 @ [line]) # gs)
          \<and> pages' = pages @ map page_of ((g0 @ [line]) # gs) \<and> cur' = page_of g"
      using h by simp
    then show ?thesis by blast
  next
    case False
    then have "paginate_loop lines pages (page_of (g0 @ [line])) = (pages', cur')"
      using Cons.prems step by (simp add: Let_def)
    from Cons.IH [OF this] obtain gs g where
      h: "(g0 @ [line]) @ lines = concat gs @ g" "[] \<notin> set gs"
         "pages' = pages @ map page_of gs" "cur' = page_of g"
      by blast
    then have "g0 @ line # lines = concat gs @ g" by simp
    with h show ?thesis by blast
  qed
qed

lemma paginate_groups:
  "\<exists>groups. concat groups = split_nl s \<and> [] \<notin> set groups
            \<and> paginate s = map page_of groups"
proof -
  obtain pages' cur' where r: "paginate_loop (split_nl s) [] (page_of []) = (pages', cur')"
    by (cases "paginate_loop (split_nl s) [] (page_of [])") auto
  from paginate_loop_groups [OF r] obtain gs g where
    h: "[] @ split_nl s = concat gs @ g" "[] \<notin> set gs"
       "pages' = [] @ map page_of gs" "cur' = page_of g"
    by blast
  have r': "paginate_loop (split_nl s) [] [] = (pages', cur')"
    using r by (simp add: page_of_def)
  show ?thesis
  proof (cases "g = []")
    case True
    then have "concat gs = split_nl s \<and> [] \<notin> set gs \<and> paginate s = map page_of gs"
      using h r' by (simp add: paginate_def page_of_def)
    then show ?thesis by blast
  next
    case False
    then have "cur' \<noteq> []" using h(4) by (simp add: page_of_empty_iff)
    then have "concat (gs @ [g]) = split_nl s \<and> [] \<notin> set (gs @ [g])
               \<and> paginate s = map page_of (gs @ [g])"
      using h r' False by (simp add: paginate_def)
    then show ?thesis by blast
  qed
qed

lemma concat_paginate: "concat (paginate s) = s @ [CHR 0x0A]"
proof -
  obtain groups where g: "concat groups = split_nl s" "paginate s = map page_of groups"
    using paginate_groups [of s] by blast
  show ?thesis using g by (simp add: concat_map_page_of page_of_split_nl)
qed

lemma paginate_nonempty: "paginate s \<noteq> []"
proof
  assume "paginate s = []"
  then have "concat (paginate s) = []" by simp
  then show False by (simp add: concat_paginate)
qed

lemma paginate_pages_nonempty: "[] \<notin> set (paginate s)"
proof -
  obtain groups where g: "[] \<notin> set groups" "paginate s = map page_of groups"
    using paginate_groups [of s] by blast
  show ?thesis
  proof
    assume "[] \<in> set (paginate s)"
    then obtain x where "x \<in> set groups" "page_of x = []" using g(2) by auto
    then show False using g(1) by (simp add: page_of_empty_iff)
  qed
qed

lemma paginate_loop_bound:
  "paginate_loop lines pages cur = (pages', cur') \<Longrightarrow>
   length cur \<le> 5000 \<Longrightarrow> \<forall>l \<in> set lines. length l \<le> m \<Longrightarrow>
   \<forall>p \<in> set pages. length p \<le> 5001 + m \<Longrightarrow>
   (\<forall>p \<in> set pages'. length p \<le> 5001 + m) \<and> length cur' \<le> 5000"
proof (induction lines arbitrary: pages cur)
  case Nil
  then show ?case by simp
next
  case (Cons line lines)
  show ?case
  proof (cases "length (cur @ line @ [CHR 0x0A]) > 5000")
    case True
    then have r: "paginate_loop lines (pages @ [cur @ line @ [CHR 0x0A]]) [] = (pages', cur')"
      using Cons.prems(1) by (simp add: Let_def)
    have b: "\<forall>p \<in> set (pages @ [cur @ line @ [CHR 0x0A]]). length p \<le> 5001 + m"
      using Cons.prems(2,3,4) by auto
    show ?thesis using Cons.IH [OF r _ _ b] Cons.prems(3) by simp
  next
    case False
    then have r: "paginate_loop lines pages (cur @ line @ [CHR 0x0A]) = (pages', cur')"
      using Cons.prems(1) by (simp add: Let_def)
    have c: "length (cur @ line @ [CHR 0x0A]) \<le> 5000" using False by simp
    show ?thesis using Cons.IH [OF r c _ Cons.prems(4)] Cons.prems(3) by simp
  qed
qed

lemma paginate_page_bound:
  assumes "\<forall>l \<in> set (split_nl s). length l \<le> m"
  shows "\<forall>p \<in> set (paginate s). length p \<le> 5001 + m"
proof -
  obtain pages' cur' where r: "paginate_loop (split_nl s) [] [] = (pages', cur')"
    by (cases "paginate_loop (split_nl s) [] []") auto
  have "(\<forall>p \<in> set pages'. length p \<le> 5001 + m) \<and> length cur' \<le> 5000"
    using paginate_loop_bound [OF r _ assms] by simp
  then show ?thesis using r by (auto simp: paginate_def)
qed

lemma paginate_two_pages:
  assumes "\<forall>l \<in> set (split_nl s). length l \<le> m" and "5000 + m < length s"
  shows "2 \<le> length (paginate s)"
proof (rule ccontr)
  assume "\<not> 2 \<le> length (paginate s)"
  then have "length (paginate s) < 2" by simp
  then obtain p where p: "paginate s = [p]"
    using paginate_nonempty [of s]
    by (cases "paginate s"; cases "tl (paginate s)") auto
  have "length p \<le> 5001 + m" using paginate_page_bound [OF assms(1)] p by simp
  moreover have "p = s @ [CHR 0x0A]" using concat_paginate [of s] p by simp
  ultimately show False using assms(2) by simp
qed

lemma split_nl_repeat:
  "split_nl (concat (replicate n ''a\<newline>'')) = replicate n ''a'' @ [[]]"
  by (induction n) simp_all

lemma length_repeat: "length (concat (replicate n ''a\<newline>'')) = 2 * n"
  by (induction n) simp_all

lemma split_nl_one_line: "CHR 0x0A \<notin> set l \<Longrightarrow> split_nl l = [l]"
  by (induction l) auto

lemma paginate_one_long_line:
  "CHR 0x0A \<notin> set l \<Longrightarrow> 5000 \<le> length l \<Longrightarrow> paginate l = [l @ [CHR 0x0A]]"
  by (simp add: paginate_def split_nl_one_line Let_def)

lemma paginate_one_short_line:
  "CHR 0x0A \<notin> set l \<Longrightarrow> length l < 5000 \<Longrightarrow> paginate l = [l @ [CHR 0x0A]]"
  by (simp add: paginate_def split_nl_one_line Let_def)

lemma concat_replicate_snoc: "concat (replicate (Suc n) x) = concat (replicate n x) @ x"
  by (induction n) simp_all

lemma concat_replicate_add:
  "concat (replicate (m + n) x) = concat (replicate m x) @ concat (replicate n x)"
  by (simp add: replicate_add)

lemma paginate_loop_repeat:
  "length cur + 2 * n \<le> 5000 \<Longrightarrow>
   paginate_loop (replicate n ''a'' @ rest) pages cur
     = paginate_loop rest pages (cur @ concat (replicate n ''a\<newline>''))"
proof (induction n arbitrary: cur)
  case 0
  show ?case by simp
next
  case (Suc n)
  have "length (cur @ ''a\<newline>'') + 2 * n \<le> 5000" using Suc.prems by simp
  from Suc.IH [OF this] show ?case using Suc.prems by (simp add: Let_def)
qed

lemma paginate_repeat:
  assumes "2 * k + 1 \<le> 5000"
  shows "paginate (concat (replicate (2501 + k) ''a\<newline>''))
           = [concat (replicate 2501 ''a\<newline>''), concat (replicate k ''a\<newline>'') @ ''\<newline>'']"
proof -
  have n: "2501 + k = 2500 + Suc k" by simp
  have sp: "split_nl (concat (replicate (2501 + k) ''a\<newline>''))
              = replicate 2500 ''a'' @ (''a'' # (replicate k ''a'' @ [[]]))"
  proof -
    have "replicate (2501 + k) ''a'' = replicate 2500 ''a'' @ (''a'' # replicate k ''a'')"
      by (simp only: n replicate_add) simp
    then show ?thesis by (simp only: split_nl_repeat) simp
  qed
  have s1: "paginate_loop (replicate 2500 ''a'' @ (''a'' # (replicate k ''a'' @ [[]]))) [] []
              = paginate_loop (''a'' # (replicate k ''a'' @ [[]])) [] (concat (replicate 2500 ''a\<newline>''))"
    using paginate_loop_repeat [of "[]" 2500 "''a'' # (replicate k ''a'' @ [[]])" "[]"] by simp
  have s2: "paginate_loop (''a'' # (replicate k ''a'' @ [[]])) [] (concat (replicate 2500 ''a\<newline>''))
              = paginate_loop (replicate k ''a'' @ [[]]) [concat (replicate 2501 ''a\<newline>'')] []"
  proof -
    have "concat (replicate 2500 ''a\<newline>'') @ ''a\<newline>'' = concat (replicate 2501 ''a\<newline>'')"
      using concat_replicate_snoc [of 2500 "''a\<newline>''"] by simp
    moreover have "length (concat (replicate 2501 ''a\<newline>'')) = 5002"
      by (simp add: length_repeat)
    ultimately show ?thesis by (simp add: Let_def)
  qed
  have s3: "paginate_loop (replicate k ''a'' @ [[]]) [concat (replicate 2501 ''a\<newline>'')] []
              = ([concat (replicate 2501 ''a\<newline>'')], concat (replicate k ''a\<newline>'') @ ''\<newline>'')"
    using paginate_loop_repeat [of "[]" k "[[]]" "[concat (replicate 2501 ''a\<newline>'')]"] assms
    by (simp add: Let_def length_repeat)
  show ?thesis by (simp only: paginate_def sp s1 s2 s3) simp
qed

lemma repeat_nonempty: "0 < n \<Longrightarrow> concat (replicate n ''a\<newline>'') \<noteq> []"
  by (cases n) simp_all

section \<open>Properties of process_skillset_content\<close>

lemma psc_string:
  "process_skillset_content libs (JStr s) record_id =
     (if prefix ''http'' s then url_fetch libs s
      else (case b64decode libs s of
              Some pdf_bytes \<Rightarrow> process_pdf libs pdf_bytes
            | None \<Rightarrow> raw_text (JStr s)))"
proof -
  have "prefix ''https'' s \<Longrightarrow> prefix ''http'' s"
    by (auto simp: prefix_def)
  then show ?thesis
    by (auto simp: process_skillset_content_def is_url_def b64decode_value_def)
qed

lemma b64_http: "python_b64decode ''http'' = Some [0x86, 0xDB, 0x69]"
  by (simp add: python_b64decode_def table_a2b_base64_def)

lemma b64_hello: "python_b64decode ''aGVsbG8='' = Some [0x68, 0x65, 0x6C, 0x6C, 0x6F]"
  by (simp add: python_b64decode_def table_a2b_base64_def)

lemma b64_text: "python_b64decode ''hello world'' = None"
  by (simp add: python_b64decode_def table_a2b_base64_def)

lemma b64_empty: "python_b64decode [] = Some []"
  by (simp add: python_b64decode_def)

lemma str_nat_404: "str_nat 404 = ''404''"
  by (simp add: str_nat.simps digit_char_def)

text \<open>
  Claim C2. On a string the function goes by this order: a string that starts with
  \<^verbatim>\<open>http\<close> (so also with \<^verbatim>\<open>http://\<close> or \<^verbatim>\<open>https\<close>) is fetched as a URL, whatever
  the decoder would say of it; otherwise, when the decoder succeeds, the decoded bytes go
  to \<open>process_pdf\<close>; otherwise the string goes to the raw-text branch, which
  paginates every non-empty string.
\<close>

theorem content_classification:
  "process_skillset_content libs (JStr s) record_id =
     (if prefix ''http'' s then url_fetch libs s
      else (case b64decode libs s of
              Some pdf_bytes \<Rightarrow> process_pdf libs pdf_bytes
            | None \<Rightarrow> raw_text (JStr s)))
   \<and> (prefix ''http://'' s \<or> prefix ''https'' s \<longrightarrow>
        process_skillset_content libs (JStr s) record_id = url_fetch libs s)
   \<and> (s \<noteq> [] \<longrightarrow> raw_text (JStr s) = (Some (paginate s), None))"
proof -
  have "prefix ''http://'' s \<or> prefix ''https'' s \<Longrightarrow> prefix ''http'' s"
    by (auto simp: prefix_def)
  then show ?thesis
    by (auto simp: psc_string raw_text_def)
qed

theorem content_classification_witness:
  "b64decode sample_libs ''http'' = Some [0x86, 0xDB, 0x69]
   \<and> process_skillset_content sample_libs (JStr ''http'') (JStr ''r1'')
       = (None, Some ''Failed to download from URL: status code 404'')
   \<and> prefix ''http://'' ''http://host/doc.pdf''
   \<and> process_skillset_content sample_libs (JStr ''http://host/doc.pdf'') (JStr ''r1'')
       = process_pdf sample_libs sample_pdf_bytes
   \<and> process_skillset_content sample_libs (JStr ''aGVsbG8='') (JStr ''r1'')
       = (None, Some ''PDF data too small to be valid'')
   \<and> ''hello world'' \<noteq> []
   \<and> process_skillset_content sample_libs (JStr ''hello world'') (JStr ''r1'')
       = (Some [''hello world\<newline>''], None)"
proof -
  have libs: "b64decode sample_libs = python_b64decode"
    "requests_get sample_libs ''http'' = Inr (404, [])"
    "requests_get sample_libs ''http://host/doc.pdf'' = Inr (200, sample_pdf_bytes)"
    by (simp_all add: sample_libs_def)
  have a: "process_skillset_content sample_libs (JStr ''http'') (JStr ''r1'')
       = (None, Some ''Failed to download from URL: status code 404'')"
    using content_classification [of sample_libs "''http''" "JStr ''r1''"]
    by (simp add: url_fetch_def libs str_nat_404)
  have b: "process_skillset_content sample_libs (JStr ''http://host/doc.pdf'') (JStr ''r1'')
       = process_pdf sample_libs sample_pdf_bytes"
    using content_classification [of sample_libs "''http://host/doc.pdf''" "JStr ''r1''"]
    by (simp add: url_fetch_def libs)
  have c: "process_skillset_content sample_libs (JStr ''aGVsbG8='') (JStr ''r1'')
       = (None, Some ''PDF data too small to be valid'')"
    using content_classification [of sample_libs "''aGVsbG8=''" "JStr ''r1''"]
    by (simp add: libs b64_hello process_pdf_def)
  have d: "process_skillset_content sample_libs (JStr ''hello world'') (JStr ''r1'')
       = (Some [''hello world\<newline>''], None)"
    using content_classification [of sample_libs "''hello world''" "JStr ''r1''"]
    by (simp add: libs b64_text paginate_one_short_line)
  show ?thesis using a b c d by (simp add: libs b64_http)
qed

lemma psc_invalid:
  "content = JNull \<or> content = JBool False \<or> content = JInt 0 \<or> content = JFloat 0
     \<or> content = JArr xs \<or> content = JObj kvs \<Longrightarrow>
   process_skillset_content libs content record_id = (None, Some ''Invalid or empty content'')"
  by (auto simp: process_skillset_content_def is_url_def b64decode_value_def raw_text_def)

text \<open>
  Claim C6, at inputs where the module does otherwise. The number 5 and the value
  \<^verbatim>\<open>True\<close> make \<^verbatim>\<open>len\<close> raise in the log line 57, and the handler of line 101 answers;
  the empty string decodes to no bytes, and \<open>process_pdf\<close> answers.
\<close>

theorem process_skillset_content_not_sized:
  "process_skillset_content libs (JInt 5) record_id
     = (None, Some ''Error processing content: object of type 'int' has no len()'')
   \<and> process_skillset_content libs (JBool True) record_id
     = (None, Some ''Error processing content: object of type 'bool' has no len()'')
   \<and> process_skillset_content (libs\<lparr>b64decode := python_b64decode\<rparr>) (JStr []) record_id
     = (None, Some ''PDF data too small to be valid'')"
  by (simp add: process_skillset_content_def quoted_def is_url_def b64decode_value_def
      b64_empty process_pdf_def)

subsection \<open>What reaches the raw-text branch\<close>

lemma a2b_start: "a2b_base64 s 0 lc p out = a2b_base64 s 0 0 0 out"
  by (induction s arbitrary: lc p) (auto split: option.splits)

lemma a2b_four:
  "a2b_base64 (''a\<newline>a\<newline>a\<newline>a\<newline>'' @ rest) 0 0 0 out
     = a2b_base64 rest 0 0 0 (out @ [0x69, 0xA6, 0x9A])"
  by (simp add: table_a2b_base64_def)

lemma a2b_repeat:
  "a2b_base64 (concat (replicate (4 * k) ''a\<newline>'') @ rest) 0 0 0 out
     = a2b_base64 rest 0 0 0 (out @ concat (replicate k [0x69, 0xA6, 0x9A]))"
proof (induction k arbitrary: out)
  case 0
  show ?case by simp
next
  case (Suc k)
  have "4 * Suc k = Suc (Suc (Suc (Suc 0))) + 4 * k" by simp
  then have "concat (replicate (4 * Suc k) ''a\<newline>'') @ rest
          = ''a\<newline>a\<newline>a\<newline>a\<newline>'' @ (concat (replicate (4 * k) ''a\<newline>'') @ rest)"
    by (simp only: concat_replicate_add) simp
  then show ?case using Suc [of "out @ [0x69, 0xA6, 0x9A]"] by (simp only: a2b_four) simp
qed

lemma ascii_repeat: "list_all (\<lambda>c. (of_char c :: nat) < 128) (concat (replicate n ''a\<newline>''))"
  by (induction n) simp_all

lemma b64_repeat_ok:
  "python_b64decode (concat (replicate (4 * k) ''a\<newline>''))
     = Some (concat (replicate k [0x69, 0xA6, 0x9A]))"
  using a2b_repeat [of k "[]" "[]"] by (simp add: python_b64decode_def ascii_repeat)

lemma b64_repeat_bad:
  "python_b64decode (concat (replicate (4 * k + 1) ''a\<newline>'')) = None"
proof -
  have e: "concat (replicate (4 * k + 1) ''a\<newline>'') = concat (replicate (4 * k) ''a\<newline>'') @ ''a\<newline>''"
    using concat_replicate_snoc [of "4 * k" "''a\<newline>''"] by simp
  have "a2b_base64 (concat (replicate (4 * k) ''a\<newline>'') @ ''a\<newline>'') 0 0 0 [] = None"
    by (simp only: a2b_repeat) (simp add: table_a2b_base64_def)
  then show ?thesis using ascii_repeat [of "4 * k + 1"] e by (simp add: python_b64decode_def)
qed

lemma a2b_space: "list_all is_ascii_space s \<Longrightarrow> a2b_base64 s 0 0 0 out = Some out"
  by (induction s) (auto simp: is_ascii_space_def table_a2b_base64_def Let_def)

lemma ascii_space: "list_all is_ascii_space s \<Longrightarrow> list_all (\<lambda>c. (of_char c :: nat) < 128) s"
  by (induction s) (auto simp: is_ascii_space_def Let_def)

lemma b64_space: "list_all is_ascii_space s \<Longrightarrow> python_b64decode s = Some []"
  by (simp add: python_b64decode_def a2b_space ascii_space)

lemma not_http_space: "list_all is_ascii_space s \<Longrightarrow> \<not> prefix ''http'' s"
  by (cases s) (auto simp: is_ascii_space_def Let_def)

lemma b64_nbsp: "python_b64decode [CHR 0xA0] = None"
  by (simp add: python_b64decode_def)

lemma not_http_repeat: "\<not> prefix ''http'' (concat (replicate n ''a\<newline>''))"
  by (cases n) simp_all

lemma psc_raw:
  assumes "\<not> prefix ''http'' s" and "b64decode libs s = None" and "s \<noteq> []"
  shows "process_skillset_content libs (JStr s) record_id = (Some (paginate s), None)"
  using assms by (simp add: psc_string raw_text_def)

lemma sample_decoder: "b64decode sample_libs = python_b64decode"
  by (simp add: sample_libs_def)

lemma b64_3001: "python_b64decode (concat (replicate 3001 ''a\<newline>'')) = None"
  using b64_repeat_bad [of 750] by simp

lemma b64_3000:
  "python_b64decode (concat (replicate 3000 ''a\<newline>'')) = Some (concat (replicate 750 [0x69, 0xA6, 0x9A]))"
  using b64_repeat_ok [of 750] by simp

lemma paginate_3001:
  "paginate (concat (replicate 3001 ''a\<newline>''))
     = [concat (replicate 2501 ''a\<newline>''), concat (replicate 500 ''a\<newline>'') @ ''\<newline>'']"
  using paginate_repeat [of 500] by simp

lemma length_triples: "length (concat (replicate k [a, b, c])) = 3 * k"
  by (induction k) simp_all

text \<open>
  Claim C4, as the module has it. A non-empty string that does not start with
  \<^verbatim>\<open>http\<close> and that the decoder refuses is paginated: every page is a run of whole
  lines of the input, each followed by a newline, and the runs in order make up all the
  lines; the pages joined give the input followed by one more newline, not the input
  itself; an input longer than 5000 plus the length of its longest line gives at least
  two pages.
\<close>

theorem raw_text_whole_lines:
  assumes "\<not> prefix ''http'' s" and "b64decode libs s = None" and "s \<noteq> []"
  shows "process_skillset_content libs (JStr s) record_id = (Some (paginate s), None)
       \<and> (\<exists>groups. concat groups = split_nl s \<and> [] \<notin> set groups
             \<and> paginate s = map page_of groups)
       \<and> concat (paginate s) = s @ ''\<newline>''
       \<and> ((\<forall>l \<in> set (split_nl s). length l \<le> m) \<and> 5000 + m < length s
            \<longrightarrow> 2 \<le> length (paginate s))"
  using psc_raw [OF assms] paginate_groups [of s] concat_paginate [of s]
    paginate_two_pages [of s m]
  by blast

theorem raw_text_whole_lines_witness:
  "\<not> prefix ''http'' (concat (replicate 3001 ''a\<newline>''))
   \<and> b64decode sample_libs (concat (replicate 3001 ''a\<newline>'')) = None
   \<and> concat (replicate 3001 ''a\<newline>'') \<noteq> []
   \<and> list_all (\<lambda>l. length l \<le> 1) (split_nl (concat (replicate 3001 ''a\<newline>'')))
   \<and> 5000 + 1 < length (concat (replicate 3001 ''a\<newline>''))
   \<and> process_skillset_content sample_libs (JStr (concat (replicate 3001 ''a\<newline>''))) (JStr ''r1'')
       = (Some (paginate (concat (replicate 3001 ''a\<newline>''))), None)
   \<and> 2 \<le> length (paginate (concat (replicate 3001 ''a\<newline>'')))
   \<and> concat (paginate (concat (replicate 3001 ''a\<newline>'')))
       = concat (replicate 3001 ''a\<newline>'') @ ''\<newline>''"
proof -
  have h1: "\<not> prefix ''http'' (concat (replicate 3001 ''a\<newline>''))" by (rule not_http_repeat)
  have h2: "b64decode sample_libs (concat (replicate 3001 ''a\<newline>'')) = None"
    by (simp only: sample_decoder b64_3001)
  have h3: "concat (replicate 3001 ''a\<newline>'') \<noteq> []" by (rule repeat_nonempty) simp
  have h4: "list_all (\<lambda>l. length l \<le> 1) (split_nl (concat (replicate 3001 ''a\<newline>'')))"
    by (simp add: split_nl_repeat list_all_iff)
  have h5: "5000 + 1 < length (concat (replicate 3001 ''a\<newline>''))"
    by (simp add: length_repeat)
  show ?thesis
    using raw_text_whole_lines [OF h1 h2 h3, of "JStr ''r1''" 1] h1 h2 h3 h4 h5
    by (simp add: list_all_iff)
qed

text \<open>
  Claim C4 as stated fails. The line \<^verbatim>\<open>a\<close> repeated 3001 times is refused by the decoder
  and gives two pages, of 5002 and 1001 characters, which do not join to the input. The
  same line repeated 3000 times is valid base64: it is decoded and sent to
  \<open>process_pdf\<close>, and no page is made of it.
\<close>

theorem raw_text_roundtrip_counterexample:
  "process_skillset_content sample_libs (JStr (concat (replicate 3001 ''a\<newline>''))) (JStr ''r1'')
     = (Some [concat (replicate 2501 ''a\<newline>''), concat (replicate 500 ''a\<newline>'') @ ''\<newline>''], None)
   \<and> map length [concat (replicate 2501 ''a\<newline>''), concat (replicate 500 ''a\<newline>'') @ ''\<newline>'']
       = [5002, 1001]
   \<and> concat [concat (replicate 2501 ''a\<newline>''), concat (replicate 500 ''a\<newline>'') @ ''\<newline>'']
       \<noteq> concat (replicate 3001 ''a\<newline>'')
   \<and> process_skillset_content sample_libs (JStr (concat (replicate 3000 ''a\<newline>''))) (JStr ''r1'')
       = (None, Some ''Cannot open PDF document: Failed to open stream'')"
proof -
  have h1: "\<not> prefix ''http'' (concat (replicate 3001 ''a\<newline>''))" by (rule not_http_repeat)
  have h2: "b64decode sample_libs (concat (replicate 3001 ''a\<newline>'')) = None"
    by (simp only: sample_decoder b64_3001)
  have h3: "concat (replicate 3001 ''a\<newline>'') \<noteq> []" by (rule repeat_nonempty) simp
  have a: "process_skillset_content sample_libs (JStr (concat (replicate 3001 ''a\<newline>''))) (JStr ''r1'')
     = (Some [concat (replicate 2501 ''a\<newline>''), concat (replicate 500 ''a\<newline>'') @ ''\<newline>''], None)"
    using psc_raw [OF h1 h2 h3] by (simp only: paginate_3001)
  have b: "map length [concat (replicate 2501 ''a\<newline>''), concat (replicate 500 ''a\<newline>'') @ ''\<newline>'']
       = [5002, 1001]"
    by (simp add: length_repeat)
  have "length (concat [concat (replicate 2501 ''a\<newline>''), concat (replicate 500 ''a\<newline>'') @ ''\<newline>''])
          \<noteq> length (concat (replicate 3001 ''a\<newline>''))"
    by (simp add: length_repeat)
  then have c: "concat [concat (replicate 2501 ''a\<newline>''), concat (replicate 500 ''a\<newline>'') @ ''\<newline>'']
       \<noteq> concat (replicate 3001 ''a\<newline>'')"
    by metis
  have len: "length (concat (replicate 750 [0x69, 0xA6, 0x9A :: byte])) = 2250"
    by (simp add: length_triples)
  have ne: "concat (replicate 750 [0x69, 0xA6, 0x9A :: byte]) \<noteq> sample_pdf_bytes"
  proof
    assume "concat (replicate 750 [0x69, 0xA6, 0x9A :: byte]) = sample_pdf_bytes"
    then have "length (concat (replicate 750 [0x69, 0xA6, 0x9A :: byte])) = length sample_pdf_bytes"
      by (rule arg_cong)
    then show False by (simp only: len sample_bytes_len)
  qed
  have d: "process_skillset_content sample_libs (JStr (concat (replicate 3000 ''a\<newline>''))) (JStr ''r1'')
       = (None, Some ''Cannot open PDF document: Failed to open stream'')"
    using not_http_repeat [of 3000] len ne
    by (simp add: psc_string sample_decoder b64_3000 process_pdf_def sample_libs_def)
  show ?thesis using a b c d by blast
qed

text \<open>
  Claim C7, as the module has it. A string of ASCII whitespace only, the empty string
  included, is decoded to no bytes and answered with the error
  \<^verbatim>\<open>PDF data too small to be valid\<close>; it is never paginated. A non-empty string that
  does not start with \<^verbatim>\<open>http\<close> and that the decoder refuses, such as a no-break space,
  gives at least one page, none of them empty, and no error; without a newline in it, the
  one page is the string followed by a newline.
\<close>

theorem whitespace_content:
  "(list_all is_ascii_space s \<longrightarrow>
      process_skillset_content (libs\<lparr>b64decode := python_b64decode\<rparr>) (JStr s) record_id
        = (None, Some ''PDF data too small to be valid''))
   \<and> (\<not> prefix ''http'' s \<and> b64decode libs s = None \<and> s \<noteq> [] \<longrightarrow>
        process_skillset_content libs (JStr s) record_id = (Some (paginate s), None)
        \<and> paginate s \<noteq> [] \<and> [] \<notin> set (paginate s))
   \<and> (CHR 0x0A \<notin> set s \<longrightarrow> paginate s = [s @ ''\<newline>''])"
proof -
  have a: "list_all is_ascii_space s \<Longrightarrow>
      process_skillset_content (libs\<lparr>b64decode := python_b64decode\<rparr>) (JStr s) record_id
        = (None, Some ''PDF data too small to be valid'')"
    by (simp add: psc_string not_http_space b64_space process_pdf_def)
  have c: "CHR 0x0A \<notin> set s \<Longrightarrow> paginate s = [s @ ''\<newline>'']"
    using paginate_one_long_line [of s] paginate_one_short_line [of s]
    by (cases "5000 \<le> length s") auto
  show ?thesis
    using a c psc_raw [of s libs record_id] paginate_nonempty [of s] paginate_pages_nonempty [of s]
    by blast
qed

theorem whitespace_content_witness:
  "list_all is_ascii_space ''  ''
   \<and> process_skillset_content sample_libs (JStr ''  '') (JStr ''r1'')
       = (None, Some ''PDF data too small to be valid'')
   \<and> \<not> prefix ''http'' [CHR 0xA0] \<and> b64decode sample_libs [CHR 0xA0] = None
   \<and> [CHR 0xA0] \<noteq> [] \<and> CHR 0x0A \<notin> set [CHR 0xA0]
   \<and> process_skillset_content sample_libs (JStr [CHR 0xA0]) (JStr ''r1'')
       = (Some [[CHR 0xA0, CHR 0x0A]], None)"
proof -
  have e: "sample_libs\<lparr>b64decode := python_b64decode\<rparr> = sample_libs"
    by (simp add: sample_libs_def)
  have s: "list_all is_ascii_space ''  ''" by (simp add: is_ascii_space_def)
  have n: "b64decode sample_libs [CHR 0xA0] = None"
    by (simp only: sample_decoder b64_nbsp)
  show ?thesis
    using whitespace_content [of "''  ''" sample_libs "JStr ''r1''"]
      whitespace_content [of "[CHR 0xA0]" sample_libs "JStr ''r1''"] e s n
    by simp
qed

text \<open>
  Claim C7 as stated fails: a no-break space gives one page, and two spaces, or a tab
  and a newline, give an error.
\<close>

theorem whitespace_content_counterexample:
  "process_skillset_content sample_libs (JStr [CHR 0xA0]) (JStr ''r1'')
     = (Some [[CHR 0xA0, CHR 0x0A]], None)
   \<and> process_skillset_content sample_libs (JStr ''  '') (JStr ''r1'')
     = (None, Some ''PDF data too small to be valid'')
   \<and> process_skillset_content sample_libs (JStr [CHR 0x09, CHR 0x0A]) (JStr ''r1'')
     = (None, Some ''PDF data too small to be valid'')"
proof -
  have s: "list_all is_ascii_space ''  ''" "list_all is_ascii_space [CHR 0x09, CHR 0x0A]"
    by (simp_all add: is_ascii_space_def)
  show ?thesis
    using s
    by (simp add: psc_string sample_decoder b64_nbsp b64_space not_http_space raw_text_def
        paginate_one_short_line process_pdf_def)
qed

section \<open>Properties of the handler\<close>

lemma skillset_no_values:
  "map_of kvs ''values'' = None \<or> map_of kvs ''values'' = Some (JArr []) \<Longrightarrow>
   skillset_request libs (JObj kvs) =
     Inr (HttpResponse
            (JsonText (error_envelope (JStr ''0'')
               (''Invalid request format: missing '' @ quoted ''values'' @ '' array'')))
            (Some ''application/json'') (Some 400))"
  by (auto simp: skillset_request_def bind_exc_def)

lemma skillset_no_data:
  "map_of kvs ''values'' = Some (JArr (JObj r # rest)) \<Longrightarrow> map_of r ''data'' = None \<Longrightarrow>
   skillset_request libs (JObj kvs) =
     Inr (create_error_response (record_id_of r) ''No data field in request'')"
  by (simp add: skillset_request_def bind_exc_def record_id_of_def)

lemma skillset_no_content:
  "map_of kvs ''values'' = Some (JArr (JObj r # rest)) \<Longrightarrow> map_of r ''data'' = Some (JObj d) \<Longrightarrow>
   \<not> truthy (case map_of d ''content'' of Some c \<Rightarrow> c | None \<Rightarrow> JStr []) \<Longrightarrow>
   skillset_request libs (JObj kvs) =
     Inr (create_error_response (record_id_of r) ''No content provided in request'')"
  by (simp add: skillset_request_def bind_exc_def record_id_of_def)

lemma json_request_simps:
  "str_contains (content_type (json_request j)) ''application/json''"
  "get_json (json_request j) = j"
  by (simp_all add: json_request_def)

text \<open>
  Claim C8, as the module has it. In a request of content type \<^verbatim>\<open>application/json\<close>,
  a body that is not JSON and a missing or empty \<^verbatim>\<open>values\<close> array are answered with
  status 400 and the error envelope with record id \<^verbatim>\<open>"0"\<close>; a first record without
  \<^verbatim>\<open>data\<close>, or with empty content, is answered with the error envelope carrying the
  record's id (\<^verbatim>\<open>"0"\<close> when it has none) and status 200.
\<close>

theorem pipeline_validation_status:
  assumes "str_contains (content_type req) ''application/json''"
  shows "(get_json req = None \<longrightarrow>
            split_pdf libs req =
              \<lparr>body = JsonText (error_envelope (JStr ''0'') ''Invalid JSON in request''),
               mimetype = ''application/json'', status_code = 400\<rparr>)
       \<and> (get_json req = Some (JObj kvs)
            \<and> (map_of kvs ''values'' = None \<or> map_of kvs ''values'' = Some (JArr [])) \<longrightarrow>
            split_pdf libs req =
              \<lparr>body = JsonText (error_envelope (JStr ''0'')
                                  ''Invalid request format: missing 'values' array''),
               mimetype = ''application/json'', status_code = 400\<rparr>)
       \<and> (get_json req = Some (JObj kvs)
            \<and> map_of kvs ''values'' = Some (JArr (JObj r # rest))
            \<and> map_of r ''data'' = None \<longrightarrow>
            split_pdf libs req =
              \<lparr>body = JsonText (error_envelope (record_id_of r) ''No data field in request''),
               mimetype = ''application/json'', status_code = 200\<rparr>)
       \<and> (get_json req = Some (JObj kvs)
            \<and> map_of kvs ''values'' = Some (JArr (JObj r # rest))
            \<and> map_of r ''data'' = Some (JObj d)
            \<and> \<not> truthy (case map_of d ''content'' of Some c \<Rightarrow> c | None \<Rightarrow> JStr []) \<longrightarrow>
            split_pdf libs req =
              \<lparr>body = JsonText (error_envelope (record_id_of r) ''No content provided in request''),
               mimetype = ''application/json'', status_code = 200\<rparr>)"
proof (intro conjI impI)
  assume "get_json req = None"
  then show "split_pdf libs req =
      \<lparr>body = JsonText (error_envelope (JStr ''0'') ''Invalid JSON in request''),
       mimetype = ''application/json'', status_code = 400\<rparr>"
    using assms by (simp add: split_pdf_def HttpResponse_def)
next
  assume "get_json req = Some (JObj kvs)
            \<and> (map_of kvs ''values'' = None \<or> map_of kvs ''values'' = Some (JArr []))"
  then show "split_pdf libs req =
      \<lparr>body = JsonText (error_envelope (JStr ''0'')
                          ''Invalid request format: missing 'values' array''),
       mimetype = ''application/json'', status_code = 400\<rparr>"
    using assms skillset_no_values [of kvs libs]
    by (simp add: split_pdf_def HttpResponse_def quoted_def)
next
  assume "get_json req = Some (JObj kvs)
            \<and> map_of kvs ''values'' = Some (JArr (JObj r # rest))
            \<and> map_of r ''data'' = None"
  then show "split_pdf libs req =
      \<lparr>body = JsonText (error_envelope (record_id_of r) ''No data field in request''),
       mimetype = ''application/json'', status_code = 200\<rparr>"
    using assms skillset_no_data [of kvs r rest libs]
    by (simp add: split_pdf_def HttpResponse_def create_error_response_def)
next
  assume "get_json req = Some (JObj kvs)
            \<and> map_of kvs ''values'' = Some (JArr (JObj r # rest))
            \<and> map_of r ''data'' = Some (JObj d)
            \<and> \<not> truthy (case map_of d ''content'' of Some c \<Rightarrow> c | None \<Rightarrow> JStr [])"
  then show "split_pdf libs req =
      \<lparr>body = JsonText (error_envelope (record_id_of r) ''No content provided in request''),
       mimetype = ''application/json'', status_code = 200\<rparr>"
    using assms skillset_no_content [of kvs r rest d libs]
    by (simp add: split_pdf_def HttpResponse_def create_error_response_def)
qed

theorem pipeline_validation_status_witness:
  "str_contains (content_type (json_request None)) ''application/json''
   \<and> status_code (split_pdf sample_libs (json_request None)) = 400
   \<and> body (split_pdf sample_libs (json_request None))
       = JsonText (JObj [(''values'', JArr [JObj [(''recordId'', JStr ''0''),
                                                  (''errors'', JArr [JStr ''Invalid JSON in request''])]])])
   \<and> status_code (split_pdf sample_libs (json_request (Some (JObj [])))) = 400
   \<and> status_code (split_pdf sample_libs
        (json_request (Some (JObj [(''values'', JArr [JObj [(''recordId'', JStr ''r7'')]])])))) = 200
   \<and> body (split_pdf sample_libs
        (json_request (Some (JObj [(''values'', JArr [JObj [(''recordId'', JStr ''r7'')]])]))))
       = JsonText (JObj [(''values'', JArr [JObj [(''recordId'', JStr ''r7''),
                                                  (''errors'', JArr [JStr ''No data field in request''])]])])
   \<and> status_code (split_pdf sample_libs
        (json_request (Some (JObj [(''values'', JArr [JObj [(''data'', JObj [])]])])))) = 200"
  using pipeline_validation_status [of "json_request None" sample_libs "[]" "[]" "[]" "[]"]
    pipeline_validation_status [of "json_request (Some (JObj []))" sample_libs "[]" "[]" "[]" "[]"]
    pipeline_validation_status [of "json_request (Some (JObj [(''values'', JArr [JObj [(''recordId'', JStr ''r7'')]])]))"
       sample_libs "[(''values'', JArr [JObj [(''recordId'', JStr ''r7'')]])]" "[(''recordId'', JStr ''r7'')]" "[]" "[]"]
    pipeline_validation_status [of "json_request (Some (JObj [(''values'', JArr [JObj [(''data'', JObj [])]])]))"
       sample_libs "[(''values'', JArr [JObj [(''data'', JObj [])]])]" "[(''data'', JObj [])]" "[]" "[]"]
  by (simp add: json_request_simps error_envelope_def record_id_of_def)

text \<open>
  Claim C8 as stated fails: a record without \<^verbatim>\<open>data\<close> and a record with empty content
  are answered with status 200.
\<close>

theorem pipeline_validation_status_counterexample:
  "split_pdf sample_libs
     (json_request (Some (JObj [(''values'', JArr [JObj [(''recordId'', JStr ''r7'')]])])))
   = \<lparr>body = JsonText (JObj [(''values'', JArr [JObj [(''recordId'', JStr ''r7''),
                                 (''errors'', JArr [JStr ''No data field in request''])]])]),
      mimetype = ''application/json'', status_code = 200\<rparr>
   \<and> status_code (split_pdf sample_libs
        (json_request (Some (JObj [(''values'',
           JArr [JObj [(''recordId'', JStr ''r7''), (''data'', JObj [(''content'', JStr [])])]])]))))
     \<noteq> 400"
  by (simp add: split_pdf_def json_request_def skillset_request_def bind_exc_def
      create_error_response_def HttpResponse_def error_envelope_def)

lemma py_getitem0_Cons: "py_getitem0 (JArr (v # rest)) = Inr v"
  by simp

lemma skillset_first_only:
  "map_of kvs ''values'' = Some (JArr (v # rest)) \<Longrightarrow>
   skillset_request libs (JObj kvs) = skillset_request libs (JObj [(''values'', JArr [v])])"
  by (simp add: skillset_request_def bind_exc_def split: sum.splits)

lemma HttpResponse_body: "body (HttpResponse b mt sc) = b"
  by (simp add: HttpResponse_def)

lemma bind_one: "(\<And>x. one_value (f x)) \<Longrightarrow> one_value (bind_exc m f)"
  by (cases m) (simp_all add: bind_exc_def one_value_def)

lemma if_one: "one_value a \<Longrightarrow> one_value b \<Longrightarrow> one_value (if c then a else b)"
  by simp

lemma error_one: "one_value (Inr (create_error_response i msg))"
  by (simp add: one_value_def create_error_response_def HttpResponse_body error_envelope_def)

lemma envelope_one: "one_value (Inr (HttpResponse (JsonText (error_envelope i msg)) mt sc))"
  by (simp add: one_value_def HttpResponse_body error_envelope_def)

lemma content_one:
  "one_value (case process_skillset_content libs content record_id of
      (pages, error) \<Rightarrow>
        if error_set error
        then Inr (create_error_response record_id (error_text error))
        else Inr (HttpResponse
                    (JsonText (JObj [(''values'',
                       JArr [JObj [(''recordId'', record_id),
                                   (''data'', JObj [(''pages'', pages_value pages)])]])]))
                    (Some ''application/json'') None))"
  by (cases "process_skillset_content libs content record_id")
     (simp add: error_one, simp add: one_value_def HttpResponse_body)

lemma skillset_one_value: "one_value (skillset_request libs j)"
  unfolding skillset_request_def
  by (intro bind_one if_one error_one envelope_one content_one)

lemma pipeline_one_value:
  assumes "str_contains (content_type req) ''application/json''"
  shows "single_values (body (split_pdf libs req))"
proof (cases "get_json req")
  case None
  then show ?thesis using assms
    by (simp add: split_pdf_def HttpResponse_body error_envelope_def)
next
  case (Some j)
  show ?thesis
  proof (cases "skillset_request libs j")
    case (Inl e)
    then show ?thesis using assms Some
      by (simp add: split_pdf_def HttpResponse_body error_envelope_def)
  next
    case (Inr resp)
    then show ?thesis using assms Some skillset_one_value [of libs j]
      by (simp add: split_pdf_def one_value_def)
  qed
qed

lemma skillset_first_record:
  "map_of kvs ''values'' = Some (JArr (JObj r # rest)) \<Longrightarrow>
   skillset_request libs (JObj kvs) =
     (case map_of r ''data'' of
        None \<Rightarrow> Inr (create_error_response (record_id_of r) ''No data field in request'')
      | Some data \<Rightarrow>
          bind_exc (py_get data ''content'' (JStr [])) (\<lambda>content.
            if \<not> truthy content
            then Inr (create_error_response (record_id_of r) ''No content provided in request'')
            else
              (case process_skillset_content libs content (record_id_of r) of
                 (pages, error) \<Rightarrow>
                   if error_set error
                   then Inr (create_error_response (record_id_of r) (error_text error))
                   else Inr (HttpResponse
                               (JsonText (JObj [(''values'',
                                  JArr [JObj [(''recordId'', record_id_of r),
                                              (''data'', JObj [(''pages'', pages_value pages)])]])]))
                               (Some ''application/json'') None))))"
  unfolding record_id_of_def
  by (simp add: skillset_request_def bind_exc_def split: option.splits)

text \<open>
  Claim C10. When the \<^verbatim>\<open>values\<close> array has two or more records, the response is the
  one of the request that holds the first record alone, and its \<^verbatim>\<open>values\<close> array has
  exactly one element. The response is made of the first record: when that record is a
  dictionary, its \<^verbatim>\<open>recordId\<close> is the id of the response, a missing \<^verbatim>\<open>data\<close> field or
  an empty content of it gives the error of that check, and otherwise the response
  carries what \<open>process_skillset_content\<close> returns on its content: the pages, or the
  error.
\<close>

theorem pipeline_first_record_only:
  assumes "str_contains (content_type req) ''application/json''"
    and "get_json req = Some (JObj kvs)"
    and "map_of kvs ''values'' = Some (JArr (v # rest))"
    and "rest \<noteq> []"
  shows "split_pdf libs req = split_pdf libs (req\<lparr>get_json := Some (JObj [(''values'', JArr [v])])\<rparr>)
       \<and> (\<exists>item. body (split_pdf libs req) = JsonText (JObj [(''values'', JArr [item])]))
       \<and> (v = JObj r \<and> map_of r ''data'' = None \<longrightarrow>
            split_pdf libs req
              = create_error_response (record_id_of r) ''No data field in request'')
       \<and> (v = JObj r \<and> map_of r ''data'' = Some (JObj d)
            \<and> \<not> truthy (case map_of d ''content'' of Some c \<Rightarrow> c | None \<Rightarrow> JStr []) \<longrightarrow>
            split_pdf libs req
              = create_error_response (record_id_of r) ''No content provided in request'')
       \<and> (v = JObj r \<and> map_of r ''data'' = Some (JObj d)
            \<and> map_of d ''content'' = Some content \<and> truthy content \<longrightarrow>
            split_pdf libs req
              = (case process_skillset_content libs content (record_id_of r) of
                   (pages, error) \<Rightarrow>
                     if error_set error
                     then create_error_response (record_id_of r) (error_text error)
                     else HttpResponse
                            (JsonText (JObj [(''values'',
                               JArr [JObj [(''recordId'', record_id_of r),
                                           (''data'', JObj [(''pages'', pages_value pages)])]])]))
                            (Some ''application/json'') None))"
proof -
  have a: "split_pdf libs req
           = split_pdf libs (req\<lparr>get_json := Some (JObj [(''values'', JArr [v])])\<rparr>)"
    using assms(1,2) skillset_first_only [OF assms(3), of libs] by (simp add: split_pdf_def)
  have "single_values (body (split_pdf libs req))"
    using pipeline_one_value [OF assms(1)] .
  then have b: "\<exists>item. body (split_pdf libs req) = JsonText (JObj [(''values'', JArr [item])])"
    by (elim single_values.elims) simp_all
  have c: "v = JObj r \<and> map_of r ''data'' = None \<longrightarrow>
            split_pdf libs req
              = create_error_response (record_id_of r) ''No data field in request''"
    using assms(1,2,3) skillset_first_record [of kvs r rest libs]
    by (auto simp: split_pdf_def)
  have d: "v = JObj r \<and> map_of r ''data'' = Some (JObj d)
            \<and> \<not> truthy (case map_of d ''content'' of Some c \<Rightarrow> c | None \<Rightarrow> JStr []) \<longrightarrow>
            split_pdf libs req
              = create_error_response (record_id_of r) ''No content provided in request''"
    using assms(1,2,3) skillset_first_record [of kvs r rest libs]
    by (auto simp: split_pdf_def bind_exc_def)
  have e: "v = JObj r \<and> map_of r ''data'' = Some (JObj d)
            \<and> map_of d ''content'' = Some content \<and> truthy content \<longrightarrow>
            split_pdf libs req
              = (case process_skillset_content libs content (record_id_of r) of
                   (pages, error) \<Rightarrow>
                     if error_set error
                     then create_error_response (record_id_of r) (error_text error)
                     else HttpResponse
                            (JsonText (JObj [(''values'',
                               JArr [JObj [(''recordId'', record_id_of r),
                                           (''data'', JObj [(''pages'', pages_value pages)])]])]))
                            (Some ''application/json'') None)"
    using assms(1,2,3) skillset_first_record [of kvs r rest libs]
    by (auto simp: split_pdf_def bind_exc_def split: prod.splits)
  show ?thesis using a b c d e by blast
qed

theorem pipeline_first_record_only_witness:
  "str_contains (content_type (json_request (Some (JObj [(''values'',
       JArr [JObj [(''recordId'', JStr ''r1''), (''data'', JObj [(''content'', JStr ''hello world'')])],
             JObj [(''recordId'', JStr ''r2'')]])])))) ''application/json''
   \<and> [JObj [(''recordId'', JStr ''r2'')]] \<noteq> []
   \<and> truthy (JStr ''hello world'')
   \<and> split_pdf sample_libs (json_request (Some (JObj [(''values'',
       JArr [JObj [(''recordId'', JStr ''r1''), (''data'', JObj [(''content'', JStr ''hello world'')])],
             JObj [(''recordId'', JStr ''r2'')]])])))
     = \<lparr>body = JsonText (JObj [(''values'',
                JArr [JObj [(''recordId'', JStr ''r1''),
                            (''data'', JObj [(''pages'', JArr [JStr ''hello world\<newline>''])])]])]),
        mimetype = ''application/json'', status_code = 200\<rparr>"
proof -
  let ?r1 = "[(''recordId'', JStr ''r1''), (''data'', JObj [(''content'', JStr ''hello world'')])]"
  let ?kvs = "[(''values'', JArr [JObj ?r1, JObj [(''recordId'', JStr ''r2'')]])]"
  let ?req = "json_request (Some (JObj ?kvs))"
  have c: "process_skillset_content sample_libs (JStr ''hello world'') (JStr ''r1'')
             = (Some [''hello world\<newline>''], None)"
    by (simp add: psc_string sample_libs_def b64_text raw_text_def paginate_one_short_line)
  have h1: "str_contains (content_type ?req) ''application/json''"
    by (simp add: json_request_def)
  have h2: "get_json ?req = Some (JObj ?kvs)" by (simp add: json_request_def)
  have h3: "map_of ?kvs ''values'' = Some (JArr (JObj ?r1 # [JObj [(''recordId'', JStr ''r2'')]]))"
    by simp
  have h4: "[JObj [(''recordId'', JStr ''r2'')]] \<noteq> []" by simp
  have "split_pdf sample_libs ?req
          = (case process_skillset_content sample_libs (JStr ''hello world'') (record_id_of ?r1) of
               (pages, error) \<Rightarrow>
                 if error_set error
                 then create_error_response (record_id_of ?r1) (error_text error)
                 else HttpResponse
                        (JsonText (JObj [(''values'',
                           JArr [JObj [(''recordId'', record_id_of ?r1),
                                       (''data'', JObj [(''pages'', pages_value pages)])]])]))
                        (Some ''application/json'') None)"
  proof -
    have p: "JObj ?r1 = JObj ?r1
             \<and> map_of ?r1 ''data'' = Some (JObj [(''content'', JStr ''hello world'')])
             \<and> map_of [(''content'', JStr ''hello world'')] ''content'' = Some (JStr ''hello world'')
             \<and> truthy (JStr ''hello world'')"
      by simp
    show ?thesis
      using pipeline_first_record_only [OF h1 h2 h3 h4, of sample_libs ?r1
          "[(''content'', JStr ''hello world'')]" "JStr ''hello world''"] p
      by blast
  qed
  then have "split_pdf sample_libs ?req
     = \<lparr>body = JsonText (JObj [(''values'',
                JArr [JObj [(''recordId'', JStr ''r1''),
                            (''data'', JObj [(''pages'', JArr [JStr ''hello world\<newline>''])])]])]),
        mimetype = ''application/json'', status_code = 200\<rparr>"
    by (simp add: record_id_of_def c error_set_def pages_value_def HttpResponse_def)
  then show ?thesis using h1 h4 by simp
qed

end
